theory Spec2Isabelle
  imports Complex_Main
begin

section \<open>Exceptions\<close>

text \<open>
  The Python exceptions that the modelled part of \<^verbatim>\<open>tf/tfprocess2.py\<close> can raise.
  \<open>ZeroDivisionError\<close> also stands for the error TensorFlow raises on an integer modulo
  by zero. Tensor values (32-bit floats in the program) are modelled as real numbers
  throughout: rounding, infinities and NaN are outside the model.
\<close>

datatype error =
    ValueError string
  | KeyError string
  | AttributeError string
  | TypeError
  | AssertionError
  | StopIteration
  | IndexError
  | ZeroDivisionError

section \<open>Metric\<close>

text \<open>
  \<^verbatim>\<open>class Metric\<close>: a name and a running (sum, count). The field \<^verbatim>\<open>value\<close> is called
  \<open>val\<close> here; \<^verbatim>\<open>count\<close> is a Python int.
\<close>

record Metric =
  short_name :: string
  long_name :: string
  suffix :: string
  val :: real
  count :: int

definition Metric_init :: "string \<Rightarrow> string \<Rightarrow> string \<Rightarrow> Metric" where
  "Metric_init sname lname sfx =
     \<lparr>short_name = sname, long_name = lname, suffix = sfx, val = 0, count = 0\<rparr>"

definition assign :: "Metric \<Rightarrow> real \<Rightarrow> Metric" where
  "assign m v = m\<lparr>val := v, count := 1\<rparr>"

definition accumulate :: "Metric \<Rightarrow> real \<Rightarrow> Metric" where
  "accumulate m v =
     (if count m > 0 then m\<lparr>val := val m + v, count := count m + 1\<rparr>
      else assign m v)"

text \<open>\<^verbatim>\<open>merge\<close> asserts that both metrics have the same short name.\<close>

definition merge :: "Metric \<Rightarrow> Metric \<Rightarrow> error + Metric" where
  "merge m other =
     (if short_name m \<noteq> short_name other then Inl AssertionError
      else Inr (m\<lparr>val := val m + val other, count := count m + count other\<rparr>))"

definition get :: "Metric \<Rightarrow> real" where
  "get m = (if count m = 0 then val m else val m / real_of_int (count m))"

definition reset :: "Metric \<Rightarrow> Metric" where
  "reset m = m\<lparr>val := 0, count := 0\<rparr>"

text \<open>The metrics that the public operations can produce, starting from the constructor.\<close>

inductive reachable :: "Metric \<Rightarrow> bool" where
  r_init: "reachable (Metric_init sname lname sfx)"
| r_assign: "reachable m \<Longrightarrow> reachable (assign m v)"
| r_accumulate: "reachable m \<Longrightarrow> reachable (accumulate m v)"
| r_merge: "reachable m \<Longrightarrow> reachable other \<Longrightarrow> merge m other = Inr m' \<Longrightarrow> reachable m'"
| r_reset: "reachable m \<Longrightarrow> reachable (reset m)"

section \<open>Loss assembly\<close>

subsection \<open>Value buckets\<close>

text \<open>
  \<^verbatim>\<open>make_value_buckets\<close>. A batch of WDL rows is a list of lists; \<^verbatim>\<open>einsum("bi, i-> b")\<close>
  is the dot product of every row with the weight vector; \<^verbatim>\<open>tf.cast\<close> to an integer type
  truncates towards zero; \<^verbatim>\<open>tf.clip_by_value\<close> takes the minimum with the upper bound and
  then the maximum with the lower bound. The 64-bit range of the cast is not modelled: the
  bucket is an unbounded integer before clipping.
\<close>

definition einsum_bi_i :: "real list list \<Rightarrow> real list \<Rightarrow> real list" where
  "einsum_bi_i m v = map (\<lambda>row. sum_list (map2 (*) row v)) m"

definition cast_int64 :: "real \<Rightarrow> int" where
  "cast_int64 x = (if 0 \<le> x then \<lfloor>x\<rfloor> else \<lceil>x\<rceil>)"

definition clip_by_value :: "int \<Rightarrow> int \<Rightarrow> int \<Rightarrow> int" where
  "clip_by_value t clip_value_min clip_value_max = max (min t clip_value_max) clip_value_min"

definition make_value_buckets :: "real list list \<Rightarrow> int \<Rightarrow> int list" where
  "make_value_buckets value_wdl num_buckets =
     (let value = einsum_bi_i value_wdl [1, 0.5, 0];
          buckets = map (\<lambda>v. cast_int64 (v * real_of_int num_buckets)) value
      in map (\<lambda>b. clip_by_value b 0 (num_buckets - 1)) buckets)"

subsection \<open>Policy loss\<close>

text \<open>
  \<^verbatim>\<open>correct_policy\<close> and \<^verbatim>\<open>policy_loss\<close>, closures of \<^verbatim>\<open>init_net\<close> over the
  configuration flag \<^verbatim>\<open>mask_legal_moves\<close>, which is the first argument here. Targets and
  logits are batches of rows. \<^verbatim>\<open>tf.where\<close> selects elementwise between two tensors of
  the same shape; \<^verbatim>\<open>tf.nn.softmax_cross_entropy_with_logits\<close> is, for every row,
  \<open>- \<Sum>\<^sub>i labels\<^sub>i * (logits\<^sub>i - ln (\<Sum>\<^sub>j exp logits\<^sub>j))\<close>.
\<close>

definition relu :: "real \<Rightarrow> real" where
  "relu x = max x 0"

definition tf_where :: "bool list list \<Rightarrow> real list list \<Rightarrow> real list list \<Rightarrow> real list list" where
  "tf_where cond x y =
     map2 (\<lambda>c (xr, yr). map2 (\<lambda>cv (xv, yv). if cv then xv else yv) c (zip xr yr)) cond (zip x y)"

definition correct_policy ::
  "bool \<Rightarrow> real list list \<Rightarrow> real list list \<Rightarrow> real list list \<times> real list list" where
  "correct_policy mask_legal_moves target output =
     (let output =
        (if mask_legal_moves then
           (let move_is_legal = map (map (\<lambda>t. t \<ge> 0)) target;
                illegal_filler = map (map (\<lambda>_. 0 - 10000000000)) output
            in tf_where move_is_legal output illegal_filler)
         else output);
          target = map (map relu) target
      in (target, output))"

definition softmax_cross_entropy_with_logits :: "real list list \<Rightarrow> real list list \<Rightarrow> real list" where
  "softmax_cross_entropy_with_logits labels logits =
     map2 (\<lambda>l z. - sum_list (map2 (\<lambda>lv zv. lv * (zv - ln (sum_list (map exp z)))) l z))
       labels logits"

definition reduce_mean :: "real list \<Rightarrow> real" where
  "reduce_mean xs = sum_list xs / real (length xs)"

definition policy_loss :: "bool \<Rightarrow> real list list \<Rightarrow> real list list \<Rightarrow> real" where
  "policy_loss mask_legal_moves target output =
     (let (target, output) = correct_policy mask_legal_moves target output;
          policy_cross_entropy = softmax_cross_entropy_with_logits target output
      in reduce_mean policy_cross_entropy)"

section \<open>Configuration and state of TFProcess\<close>

text \<open>
  The configuration entries and attributes that the modelled methods read.
  \<open>loss_scale\<close> is \<^verbatim>\<open>self.loss_scale\<close> (1 in single precision); \<open>nadam_optimizer\<close> stands
  for any of the four spellings of the Nadam flag; \<^verbatim>\<open>sparse\<close> is \<^verbatim>\<open>False\<close>.
  \<open>num_replicas_in_sync\<close> is \<open>None\<close> when \<^verbatim>\<open>self.strategy\<close> is \<^verbatim>\<open>None\<close>.
  \<open>INPUT_112_WITH_CANONICALIZATION_HECTOPLIES\<close> is an enumeration value of the protobuf
  schema, which is not part of this file; it is a parameter.
\<close>

record config =
  lr_values :: "real list"
  lr_boundaries :: "int list"
  total_steps :: int
  warmup_steps :: int
  test_steps :: int
  train_avg_report_steps :: int
  swa_steps :: int
  swa_enabled :: bool
  swa_max_n :: real
  max_grad_norm :: real
  loss_scale :: real
  rmsprop_optimizer :: bool
  nadam_optimizer :: bool
  weight_decay :: real
  lookahead_optimizer :: bool
  virtual_batch_size :: "int option"
  num_replicas_in_sync :: "nat option"
  POLICY_HEAD :: int
  VALUE_HEAD :: int
  INPUT_112_WITH_CANONICALIZATION_HECTOPLIES :: int

text \<open>
  A tensor is the list of its elements in row-major order. A model weight
  (\<^verbatim>\<open>tf.Variable\<close>) has a name, a shape and its elements. Every weight of this network is
  trainable, so \<^verbatim>\<open>model.trainable_weights\<close> is \<^verbatim>\<open>model.weights\<close>.
\<close>

type_synonym tensor = "real list"

record variable =
  name :: string
  shape :: "nat list"
  data :: tensor

text \<open>
  The gradients of one micro-batch: one tensor for every weight. With a distribution
  strategy there is one such list on every replica; without one there is a single entry.
\<close>

type_synonym grads = "tensor list"
type_synonym replica_grads = "grads list"

text \<open>
  The optimizer that \<^verbatim>\<open>init_net\<close> leaves in \<^verbatim>\<open>self.optimizer\<close>: SGD with momentum 0.9
  and Nesterov, wrapped for loss scaling when \<^verbatim>\<open>loss_scale\<close> is not 1, then replaced by
  RMSprop or by Nadam (with decoupled weight decay when \<^verbatim>\<open>weight_decay\<close> is positive), and
  at last wrapped by Lookahead, each by its configuration flag and in this order.
\<close>

datatype optimizer =
    SGD
  | LossScaleOptimizer optimizer
  | RMSprop
  | Nadam
  | NadamW
  | Lookahead optimizer

definition init_net_optimizer :: "config \<Rightarrow> optimizer" where
  "init_net_optimizer cfg =
     (let opt = SGD;
          opt = (if loss_scale cfg \<noteq> 1 then LossScaleOptimizer opt else opt);
          opt = (if rmsprop_optimizer cfg then RMSprop else opt);
          opt = (if nadam_optimizer cfg
                 then (if weight_decay cfg > 0 then NadamW else Nadam) else opt)
      in if lookahead_optimizer cfg then Lookahead opt else opt)"

text \<open>
  The attributes of a \<^verbatim>\<open>TFProcess\<close> that the modelled methods read or write. The state
  of the optimizer: \<open>accum\<close> is the momentum slot of SGD for every weight, \<open>rms\<close> and
  \<open>mg\<close> are the slots of centred RMSprop, \<open>loss_scale_value\<close> and \<open>good_steps\<close> the
  dynamic loss scale, \<open>opt_slots\<close> the state of the other optimizers, as tensors.
  The data iterators are lists of batches;
  \<^verbatim>\<open>next\<close> on an exhausted iterator raises \<open>StopIteration\<close>. \<open>pb_*\<close> are the fields of
  \<^verbatim>\<open>self.net.pb.training_params\<close>. \<open>saved_protos\<close> records the weight files written and
  \<open>printed\<close> the messages of \<^verbatim>\<open>replace_weights\<close>; other console output and the summary
  files are not modelled.
\<close>

record 'b tfprocess =
  weights :: "variable list"
  accum :: "tensor list"
  rms :: "tensor list"
  mg :: "tensor list"
  loss_scale_value :: real
  good_steps :: nat
  opt_slots :: "tensor list"
  active_lr :: real
  lr :: real
  global_step :: int
  last_steps :: int
  swa_weights :: "tensor list option"
  swa_count :: real
  train_iter :: "'b list"
  test_iter :: "'b list"
  train_metrics :: "Metric list"
  test_metrics :: "Metric list"
  test_writer :: string
  swa_writer :: string
  pb_learning_rate :: real
  pb_mse_loss :: real
  pb_policy_loss :: real
  pb_accuracy :: real
  saved_protos :: "(string \<times> (string \<times> tensor) list) list"
  printed :: "string list"

text \<open>
  A method returns the exception it raised, if any, and the state it leaves behind: an
  exception does not undo the assignments made before it.
\<close>

type_synonym 'b result = "error option \<times> 'b tfprocess"

definition and_then :: "'b result \<Rightarrow> ('b tfprocess \<Rightarrow> 'b result) \<Rightarrow> 'b result" where
  "and_then r f = (case r of (None, s) \<Rightarrow> f s | (Some e, s) \<Rightarrow> (Some e, s))"

text \<open>
  The collaborators outside the scope of the model, as parameters: the forward and backward
  pass of the network on one batch (\<^verbatim>\<open>process_inner_loop\<close> returns the metrics and the
  gradients on every replica, \<^verbatim>\<open>calculate_test_summaries_inner_loop\<close> the metrics; with
  a strategy these are the \<^verbatim>\<open>strategy_*\<close> variants), the serialisation of weights by
  \<^verbatim>\<open>self.net\<close> (\<^verbatim>\<open>fill_net_v2\<close> and \<^verbatim>\<open>save_proto\<close>, which may raise), the part of
  \<^verbatim>\<open>process\<close> after the test pass (validation, checkpoint export, profiling), and the
  update rule of the Nadam and Lookahead optimizers of the library, which takes the
  learning rate, the gradients, the weights and the optimizer's own state.
\<close>

record 'b env =
  process_inner_loop :: "variable list \<Rightarrow> 'b \<Rightarrow> real list \<times> replica_grads"
  calculate_test_summaries_inner_loop :: "variable list \<Rightarrow> 'b \<Rightarrow> real list"
  save_proto :: "string \<Rightarrow> (string \<times> tensor) list \<Rightarrow> error option"
  after_test :: "int \<Rightarrow> 'b tfprocess \<Rightarrow> 'b result"
  library_apply_gradients ::
    "optimizer \<Rightarrow> real \<Rightarrow> grads \<Rightarrow> variable list \<Rightarrow> tensor list \<Rightarrow> variable list \<times> tensor list"

section \<open>Learning-rate schedule\<close>

text \<open>
  \<^verbatim>\<open>bisect.bisect_right\<close> of the Python standard library: binary search for the insertion
  point to the right of equal elements.
\<close>

function bisect_right_loop :: "int list \<Rightarrow> int \<Rightarrow> nat \<Rightarrow> nat \<Rightarrow> nat" where
  "bisect_right_loop a x lo hi =
     (if lo < hi then
        (let mid = (lo + hi) div 2 in
         if x < a ! mid then bisect_right_loop a x lo mid
         else bisect_right_loop a x (mid + 1) hi)
      else lo)"
  by pat_completeness auto
termination
  by (relation "measure (\<lambda>(a, x, lo, hi). hi - lo)") auto

declare bisect_right_loop.simps [simp del]

definition bisect_right :: "int list \<Rightarrow> int \<Rightarrow> nat" where
  "bisect_right a x = bisect_right_loop a x 0 (length a)"

text \<open>\<^verbatim>\<open>init_net\<close> sorts the configured boundaries in place.\<close>

definition init_net_cfg :: "config \<Rightarrow> config" where
  "init_net_cfg cfg = cfg\<lparr>lr_boundaries := sort (lr_boundaries cfg)\<rparr>"

text \<open>
  The block \<^verbatim>\<open># Determine learning rate\<close> of \<^verbatim>\<open>process\<close>: the value assigned to
  \<^verbatim>\<open>self.lr\<close> at step counter \<open>steps\<close>.
\<close>

definition determine_lr :: "config \<Rightarrow> int \<Rightarrow> error + real" where
  "determine_lr cfg steps =
     (if total_steps cfg = 0 then Inl ZeroDivisionError
      else
        (let steps_total = steps mod total_steps cfg;
             k = bisect_right (lr_boundaries cfg) steps_total
         in if k < length (lr_values cfg) then
              (let lr = lr_values cfg ! k
               in if warmup_steps cfg > 0 \<and> steps < warmup_steps cfg
                  then Inr (lr * real_of_int (steps + 1) / real_of_int (warmup_steps cfg))
                  else Inr lr)
            else Inl IndexError))"

section \<open>Stochastic weight averaging\<close>

definition read_weights :: "'b tfprocess \<Rightarrow> tensor list" where
  "read_weights s = map data (weights s)"

text \<open>\<^verbatim>\<open>for (v, w) in zip(vs, self.model.weights): w.assign(v)\<close>\<close>

fun assign_all :: "tensor list \<Rightarrow> variable list \<Rightarrow> variable list" where
  "assign_all (v # vs) (w # ws) = w\<lparr>data := v\<rparr> # assign_all vs ws"
| "assign_all vs ws = ws"

text \<open>
  The weights and \<^verbatim>\<open>swa_count\<close> are 32-bit floats, and \<^verbatim>\<open>update_swa\<close> is modelled
  with their arithmetic: every operation returns the exact result rounded to the nearest
  number with a significand of 24 bits, ties to the even significand. Overflow and
  subnormal numbers are not modelled.
\<close>

definition round_half_even :: "real \<Rightarrow> int" where
  "round_half_even y =
     (let f = \<lfloor>y\<rfloor>
      in if y - real_of_int f < 1 / 2 then f
         else if 1 / 2 < y - real_of_int f then f + 1
         else if even f then f else f + 1)"

definition f32 :: "real \<Rightarrow> real" where
  "f32 x =
     (if x = 0 then 0
      else
        (let e = \<lfloor>log 2 \<bar>x\<bar>\<rfloor>;
             ulp = 2 powr real_of_int (e - 23)
         in real_of_int (round_half_even (x / ulp)) * ulp))"

text \<open>The loop of \<^verbatim>\<open>update_swa\<close> over \<^verbatim>\<open>zip(self.model.weights, self.swa_weights)\<close>.\<close>

fun swa_average :: "real \<Rightarrow> variable list \<Rightarrow> tensor list \<Rightarrow> tensor list" where
  "swa_average num (w # ws) (swa # swas) =
     map2 (\<lambda>sv wv. f32 (f32 (sv * f32 (num / f32 (num + 1)))
                       + f32 (wv * f32 (1 / f32 (num + 1))))) swa (data w)
       # swa_average num ws swas"
| "swa_average num ws swas = swas"

text \<open>\<^verbatim>\<open>self.swa_weights\<close> is \<^verbatim>\<open>None\<close> when SWA is disabled; \<^verbatim>\<open>zip\<close> then raises.\<close>

definition update_swa :: "config \<Rightarrow> 'b tfprocess \<Rightarrow> 'b result" where
  "update_swa cfg s =
     (case swa_weights s of
        None \<Rightarrow> (Some TypeError, s)
      | Some swas \<Rightarrow>
          (let num = swa_count s
           in (None, s\<lparr>swa_weights := Some (swa_average num (weights s) swas),
                        swa_count := min (f32 (num + 1)) (f32 (swa_max_n cfg))\<rparr>)))"


section \<open>Test summaries\<close>

text \<open>\<^verbatim>\<open>for acc, val in zip(metrics, values): acc.accumulate(val)\<close>\<close>

fun accumulate_all :: "Metric list \<Rightarrow> real list \<Rightarrow> Metric list" where
  "accumulate_all (m # ms) (v # vs) = accumulate m v # accumulate_all ms vs"
| "accumulate_all ms vs = ms"

text \<open>The loop \<^verbatim>\<open>for _ in range(0, test_batches)\<close> of \<^verbatim>\<open>calculate_test_summaries\<close>.\<close>

fun test_batches_loop :: "'b env \<Rightarrow> nat \<Rightarrow> 'b tfprocess \<Rightarrow> 'b result" where
  "test_batches_loop env 0 s = (None, s)"
| "test_batches_loop env (Suc n) s =
     (case test_iter s of
        [] \<Rightarrow> (Some StopIteration, s)
      | b # rest \<Rightarrow>
          (let metrics = calculate_test_summaries_inner_loop env (weights s) b
           in test_batches_loop env n
                (s\<lparr>test_iter := rest,
                   test_metrics := accumulate_all (test_metrics s) metrics\<rparr>)))"

definition calculate_test_summaries :: "'b env \<Rightarrow> int \<Rightarrow> int \<Rightarrow> 'b tfprocess \<Rightarrow> 'b result" where
  "calculate_test_summaries env test_batches steps s =
     (let s = s\<lparr>test_metrics := map reset (test_metrics s)\<rparr>
      in case test_batches_loop env (nat test_batches) s of
           (Some e, s) \<Rightarrow> (Some e, s)
         | (None, s) \<Rightarrow>
             (let s = s\<lparr>pb_learning_rate := lr s\<rparr>
              in if length (test_metrics s) \<le> 3 then (Some IndexError, s)
                 else
                   (let s = s\<lparr>pb_mse_loss := get (test_metrics s ! 3)\<rparr>;
                        s = s\<lparr>pb_policy_loss := get (test_metrics s ! 0)\<rparr>
                    in if length (test_metrics s) \<le> 4 then (Some IndexError, s)
                       else (None, s\<lparr>pb_accuracy := get (test_metrics s ! 4)\<rparr>))))"

definition calculate_swa_summaries :: "'b env \<Rightarrow> int \<Rightarrow> int \<Rightarrow> 'b tfprocess \<Rightarrow> 'b result" where
  "calculate_swa_summaries env test_batches steps s =
     (case swa_weights s of
        None \<Rightarrow> (Some TypeError, s)
      | Some swas \<Rightarrow>
          (let backup = read_weights s;
               s = s\<lparr>weights := assign_all swas (weights s)\<rparr>;
               true_test_writer = test_writer s;
               s = s\<lparr>test_writer := swa_writer s\<rparr>
           in case calculate_test_summaries env test_batches steps s of
                (Some e, s) \<Rightarrow> (Some e, s)
              | (None, s) \<Rightarrow>
                  (let s = s\<lparr>test_writer := true_test_writer\<rparr>
                   in (None, s\<lparr>weights := assign_all backup (weights s)\<rparr>))))"

definition save_leelaz_weights :: "'b env \<Rightarrow> string \<Rightarrow> 'b tfprocess \<Rightarrow> 'b result" where
  "save_leelaz_weights env filename s =
     (let numpy_weights = map (\<lambda>weight. (name weight, data weight)) (weights s)
      in case save_proto env filename numpy_weights of
           Some e \<Rightarrow> (Some e, s)
         | None \<Rightarrow> (None, s\<lparr>saved_protos := saved_protos s @ [(filename, numpy_weights)]\<rparr>))"

definition save_swa_weights :: "'b env \<Rightarrow> string \<Rightarrow> 'b tfprocess \<Rightarrow> 'b result" where
  "save_swa_weights env filename s =
     (case swa_weights s of
        None \<Rightarrow> (Some TypeError, s)
      | Some swas \<Rightarrow>
          (let backup = read_weights s;
               s = s\<lparr>weights := assign_all swas (weights s)\<rparr>
           in case save_leelaz_weights env filename s of
                (Some e, s) \<Rightarrow> (Some e, s)
              | (None, s) \<Rightarrow> (None, s\<lparr>weights := assign_all backup (weights s)\<rparr>)))"

section \<open>Gradient pipeline\<close>

definition tensor_add :: "tensor \<Rightarrow> tensor \<Rightarrow> tensor" where
  "tensor_add a b = map2 (+) a b"

definition merge_grads :: "grads \<Rightarrow> grads \<Rightarrow> grads" where
  "merge_grads grads new_grads = map2 tensor_add grads new_grads"

text \<open>\<^verbatim>\<open>strategy.run\<close> applies \<^verbatim>\<open>merge_grads\<close> on every replica.\<close>

definition strategy_merge_grads :: "replica_grads \<Rightarrow> replica_grads \<Rightarrow> replica_grads" where
  "strategy_merge_grads grads new_grads = map2 merge_grads grads new_grads"

text \<open>
  The functions of TensorFlow and Keras that \<^verbatim>\<open>apply_grads\<close> calls, after their
  documentation: the optimizer's default \<^verbatim>\<open>gradient_aggregator\<close> sums the gradients of
  all replicas (and is the identity for a single replica);
  \<^verbatim>\<open>tf.clip_by_global_norm\<close> multiplies every tensor by
  \<open>clip_norm * min (1 / global_norm) (1 / clip_norm)\<close>, which is 1 for a zero norm, and also
  returns the norm; the SGD optimizer with momentum 0.9 and Nesterov updates
  \<open>accum \<leftarrow> 0.9 * accum - lr * g\<close> and then \<open>var \<leftarrow> var + 0.9 * accum - lr * g\<close>; the
  centred RMSprop optimizer with \<open>rho = 0.9\<close>, no momentum and \<open>epsilon = 1e-07\<close> updates
  \<open>rms \<leftarrow> 0.9 * rms + 0.1 * g\<^sup>2\<close>, \<open>mg \<leftarrow> 0.9 * mg + 0.1 * g\<close> and then
  \<open>var \<leftarrow> var - lr * g / (sqrt (rms - mg\<^sup>2) + epsilon)\<close>. The learning rate is read from
  \<^verbatim>\<open>self.active_lr\<close>.
\<close>

definition gradient_aggregator :: "replica_grads \<Rightarrow> grads" where
  "gradient_aggregator rgrads = (case rgrads of [] \<Rightarrow> [] | g # gs \<Rightarrow> foldl merge_grads g gs)"

definition global_norm :: "grads \<Rightarrow> real" where
  "global_norm t_list = sqrt (sum_list (map (\<lambda>t. sum_list (map (\<lambda>x. x * x) t)) t_list))"

definition clip_by_global_norm :: "grads \<Rightarrow> real \<Rightarrow> grads \<times> real" where
  "clip_by_global_norm t_list clip_norm =
     (let use_norm = global_norm t_list;
          scale = (if use_norm = 0 then 1 else clip_norm * min (1 / use_norm) (1 / clip_norm))
      in (map (map (\<lambda>x. x * scale)) t_list, use_norm))"

definition momentum_accum :: "real \<Rightarrow> tensor \<Rightarrow> tensor \<Rightarrow> tensor" where
  "momentum_accum learning_rate a g = map2 (\<lambda>av gv. 0.9 * av - learning_rate * gv) a g"

definition nesterov_var :: "real \<Rightarrow> tensor \<Rightarrow> tensor \<Rightarrow> tensor \<Rightarrow> tensor" where
  "nesterov_var learning_rate v a g =
     map2 (\<lambda>wv (av, gv). wv + 0.9 * av - learning_rate * gv) v (zip a g)"

fun sgd_apply_gradients ::
  "real \<Rightarrow> grads \<Rightarrow> variable list \<Rightarrow> tensor list \<Rightarrow> variable list \<times> tensor list" where
  "sgd_apply_gradients learning_rate (g # gs) (w # ws) (a # as) =
     (let a' = momentum_accum learning_rate a g;
          w' = w\<lparr>data := nesterov_var learning_rate (data w) a' g\<rparr>;
          (ws', as') = sgd_apply_gradients learning_rate gs ws as
      in (w' # ws', a' # as'))"
| "sgd_apply_gradients learning_rate gs ws as = (ws, as)"

definition rmsprop_rms :: "tensor \<Rightarrow> tensor \<Rightarrow> tensor" where
  "rmsprop_rms r g = map2 (\<lambda>rv gv. 0.9 * rv + 0.1 * (gv * gv)) r g"

definition rmsprop_mg :: "tensor \<Rightarrow> tensor \<Rightarrow> tensor" where
  "rmsprop_mg m g = map2 (\<lambda>mv gv. 0.9 * mv + 0.1 * gv) m g"

definition rmsprop_var :: "real \<Rightarrow> tensor \<Rightarrow> tensor \<Rightarrow> tensor \<Rightarrow> tensor \<Rightarrow> tensor" where
  "rmsprop_var learning_rate v r m g =
     map2 (\<lambda>wv (rv, mv, gv). wv - learning_rate * gv / (sqrt (rv - mv * mv) + 1 / 10000000))
       v (zip r (zip m g))"

fun rmsprop_apply_gradients ::
  "real \<Rightarrow> grads \<Rightarrow> variable list \<Rightarrow> tensor list \<Rightarrow> tensor list
     \<Rightarrow> variable list \<times> tensor list \<times> tensor list" where
  "rmsprop_apply_gradients learning_rate (g # gs) (w # ws) (r # rs) (m # ms) =
     (let r' = rmsprop_rms r g;
          m' = rmsprop_mg m g;
          w' = w\<lparr>data := rmsprop_var learning_rate (data w) r' m' g\<rparr>;
          (ws', rs', ms') = rmsprop_apply_gradients learning_rate gs ws rs ms
      in (w' # ws', r' # rs', m' # ms'))"
| "rmsprop_apply_gradients learning_rate gs ws rs ms = (ws, rs, ms)"

text \<open>
  \<^verbatim>\<open>self.optimizer.apply_gradients\<close>. The loss-scale wrapper applies the wrapped
  optimizer (in the model every gradient is finite) and doubles the loss scale after 2000
  steps in a row; Nadam and Lookahead are the parameter of the model.
\<close>

fun optimizer_apply_gradients ::
  "'b env \<Rightarrow> optimizer \<Rightarrow> grads \<Rightarrow> 'b tfprocess \<Rightarrow> 'b tfprocess" where
  "optimizer_apply_gradients env SGD grads s =
     (let (ws, as) = sgd_apply_gradients (active_lr s) grads (weights s) (accum s)
      in s\<lparr>weights := ws, accum := as\<rparr>)"
| "optimizer_apply_gradients env RMSprop grads s =
     (let (ws, rs, ms) = rmsprop_apply_gradients (active_lr s) grads (weights s) (rms s) (mg s)
      in s\<lparr>weights := ws, rms := rs, mg := ms\<rparr>)"
| "optimizer_apply_gradients env (LossScaleOptimizer inner) grads s =
     (let s = optimizer_apply_gradients env inner grads s;
          n = good_steps s + 1
      in if 2000 \<le> n then s\<lparr>loss_scale_value := loss_scale_value s * 2, good_steps := 0\<rparr>
         else s\<lparr>good_steps := n\<rparr>)"
| "optimizer_apply_gradients env Nadam grads s =
     (let (ws, slots) = library_apply_gradients env Nadam (active_lr s) grads (weights s) (opt_slots s)
      in s\<lparr>weights := ws, opt_slots := slots\<rparr>)"
| "optimizer_apply_gradients env NadamW grads s =
     (let (ws, slots) = library_apply_gradients env NadamW (active_lr s) grads (weights s) (opt_slots s)
      in s\<lparr>weights := ws, opt_slots := slots\<rparr>)"
| "optimizer_apply_gradients env (Lookahead inner) grads s =
     (let (ws, slots) =
            library_apply_gradients env (Lookahead inner) (active_lr s) grads (weights s) (opt_slots s)
      in s\<lparr>weights := ws, opt_slots := slots\<rparr>)"

text \<open>
  \<^verbatim>\<open>self.optimizer.get_unscaled_gradients\<close>: only the loss-scale wrapper has this method;
  it multiplies every gradient by the reciprocal of the current loss scale.
\<close>

definition get_unscaled_gradients :: "optimizer \<Rightarrow> 'b tfprocess \<Rightarrow> grads \<Rightarrow> error + grads" where
  "get_unscaled_gradients opt s grads =
     (case opt of
        LossScaleOptimizer inner \<Rightarrow> Inr (map (map (\<lambda>x. x * (1 / loss_scale_value s))) grads)
      | _ \<Rightarrow> Inl (AttributeError ''get_unscaled_gradients''))"


text \<open>
  \<^verbatim>\<open>apply_grads\<close>; with a strategy it runs on every replica of the mirrored weights.
  Unscaling with an optimizer that is not the loss-scale wrapper raises. The gradient norm
  that the method returns is only logged and is not part of the result here.
\<close>

definition apply_grads ::
  "'b env \<Rightarrow> config \<Rightarrow> replica_grads \<Rightarrow> int \<Rightarrow> 'b tfprocess \<Rightarrow> 'b result" where
  "apply_grads env cfg grads effective_batch_splits s =
     (let grads = take (length (weights s)) (gradient_aggregator grads)
      in case (if loss_scale cfg \<noteq> 1
               then get_unscaled_gradients (init_net_optimizer cfg) s grads
               else Inr grads) of
           Inl e \<Rightarrow> (Some e, s)
         | Inr grads \<Rightarrow>
             (let max_grad_norm = max_grad_norm cfg * real_of_int effective_batch_splits;
                  (grads, grad_norm) = clip_by_global_norm grads max_grad_norm
              in (None, optimizer_apply_gradients env (init_net_optimizer cfg) grads s)))"

text \<open>\<^verbatim>\<open>if not grads\<close>: \<^verbatim>\<open>None\<close>, or an empty list of gradients.\<close>

definition not_grads :: "replica_grads option \<Rightarrow> bool" where
  "not_grads grads = (case grads of None \<Rightarrow> True | Some rg \<Rightarrow> list_all (\<lambda>g. g = []) rg)"

text \<open>The loop \<^verbatim>\<open>for batch_id in range(batch_splits)\<close> of \<^verbatim>\<open>train_step\<close>.\<close>

fun accumulate_grads ::
  "'b env \<Rightarrow> nat \<Rightarrow> replica_grads option \<Rightarrow> 'b tfprocess
     \<Rightarrow> error option \<times> replica_grads option \<times> 'b tfprocess" where
  "accumulate_grads env 0 grads s = (None, grads, s)"
| "accumulate_grads env (Suc n) grads s =
     (case train_iter s of
        [] \<Rightarrow> (Some StopIteration, grads, s)
      | b # rest \<Rightarrow>
          (let (metrics, new_grads) = process_inner_loop env (weights s) b;
               grads = (if not_grads grads then new_grads
                        else strategy_merge_grads (the grads) new_grads)
           in accumulate_grads env n (Some grads)
                (s\<lparr>train_iter := rest,
                   train_metrics := accumulate_all (train_metrics s) metrics\<rparr>)))"

text \<open>
  The part of \<^verbatim>\<open>train_step\<close> from \<^verbatim>\<open>grads = None\<close> to the call of \<^verbatim>\<open>apply_grads\<close>.
  Dividing \<^verbatim>\<open>self.lr\<close> by zero raises when it is a Python float; without any micro-batch
  \<^verbatim>\<open>grads\<close> is still \<^verbatim>\<open>None\<close> and \<^verbatim>\<open>zip\<close> raises.
\<close>

definition train_step_update :: "'b env \<Rightarrow> config \<Rightarrow> int \<Rightarrow> 'b tfprocess \<Rightarrow> 'b result" where
  "train_step_update env cfg batch_splits s =
     (case accumulate_grads env (nat batch_splits) None s of
        (Some e, grads, s) \<Rightarrow> (Some e, s)
      | (None, grads, s) \<Rightarrow>
          (let effective_batch_splits =
                 (case num_replicas_in_sync cfg of
                    None \<Rightarrow> batch_splits
                  | Some r \<Rightarrow> batch_splits * int r)
           in if effective_batch_splits = 0 then (Some ZeroDivisionError, s)
              else
                (let s = s\<lparr>active_lr := lr s / real_of_int effective_batch_splits\<rparr>
                 in case grads of
                      None \<Rightarrow> (Some TypeError, s)
                    | Some grads \<Rightarrow> apply_grads env cfg grads effective_batch_splits s)))"

section \<open>The training loop\<close>

text \<open>
  \<^verbatim>\<open>train_step\<close>: the update, the step counter, and the reset of the training metrics on
  the report cadence. The conditions are Python \<^verbatim>\<open>or\<close> expressions, so the modulo by
  \<^verbatim>\<open>total_steps\<close> is evaluated only when the first disjunct is false.
\<close>

definition train_step :: "'b env \<Rightarrow> config \<Rightarrow> int \<Rightarrow> int \<Rightarrow> int \<Rightarrow> 'b tfprocess \<Rightarrow> 'b result" where
  "train_step env cfg steps batch_size batch_splits s =
     (if train_avg_report_steps cfg = 0
         \<or> ((steps + 1) mod train_avg_report_steps cfg \<noteq> 0 \<and> total_steps cfg = 0)
      then (Some ZeroDivisionError, s)
      else
        and_then (train_step_update env cfg batch_splits s)
          (\<lambda>s. let s = s\<lparr>global_step := global_step s + 1\<rparr>;
                   steps = global_step s
               in if steps mod train_avg_report_steps cfg \<noteq> 0 \<and> total_steps cfg = 0
                  then (Some ZeroDivisionError, s)
                  else if steps mod train_avg_report_steps cfg = 0
                          \<or> steps mod total_steps cfg = 0
                  then (None, s\<lparr>last_steps := steps,
                                 train_metrics := map reset (train_metrics s)\<rparr>)
                  else (None, s)))"

text \<open>
  \<^verbatim>\<open>process\<close>: the test pass before the first step of a run, the learning rate, the
  training step, the SWA update and the test pass on their cadences; what follows is
  \<open>after_test\<close>.
\<close>

definition process ::
  "'b env \<Rightarrow> config \<Rightarrow> int \<Rightarrow> int \<Rightarrow> int \<Rightarrow> 'b tfprocess \<Rightarrow> 'b result" where
  "process env cfg batch_size test_batches batch_splits s =
     (let steps = global_step s
      in if total_steps cfg = 0 then (Some ZeroDivisionError, s)
         else
           and_then
             (if steps mod total_steps cfg = 0 then
                and_then (calculate_test_summaries env test_batches (steps + 1) s)
                  (\<lambda>s. if swa_enabled cfg
                       then calculate_swa_summaries env test_batches (steps + 1) s
                       else (None, s))
              else (None, s))
             (\<lambda>s. case determine_lr cfg steps of
                    Inl e \<Rightarrow> (Some e, s)
                  | Inr v \<Rightarrow>
                      and_then (train_step env cfg steps batch_size batch_splits (s\<lparr>lr := v\<rparr>))
                        (\<lambda>s. let steps = global_step s
                             in and_then
                                  (if swa_enabled cfg then
                                     (if swa_steps cfg = 0 then (Some ZeroDivisionError, s)
                                      else if steps mod swa_steps cfg = 0 then update_swa cfg s
                                      else (None, s))
                                   else (None, s))
                                  (\<lambda>s. if test_steps cfg = 0 then (Some ZeroDivisionError, s)
                                       else
                                         and_then
                                           (if steps mod test_steps cfg = 0
                                               \<or> steps mod total_steps cfg = 0 then
                                              and_then
                                                (calculate_test_summaries env test_batches steps s)
                                                (\<lambda>s. if swa_enabled cfg
                                                     then calculate_swa_summaries env test_batches steps s
                                                     else (None, s))
                                            else (None, s))
                                           (after_test env steps)))))"

text \<open>
  The closure \<^verbatim>\<open>loop\<close> of \<^verbatim>\<open>process_loop\<close>:
  \<^verbatim>\<open>for _ in range(steps % total_steps, total_steps): process(...)\<close>. The wait on the stop
  file is not modelled.
\<close>

fun loop_iterations ::
  "'b env \<Rightarrow> config \<Rightarrow> int \<Rightarrow> int \<Rightarrow> int \<Rightarrow> nat \<Rightarrow> 'b tfprocess \<Rightarrow> 'b result" where
  "loop_iterations env cfg batch_size test_batches batch_splits 0 s = (None, s)"
| "loop_iterations env cfg batch_size test_batches batch_splits (Suc n) s =
     and_then (process env cfg batch_size test_batches batch_splits s)
       (loop_iterations env cfg batch_size test_batches batch_splits n)"

definition loop ::
  "'b env \<Rightarrow> config \<Rightarrow> int \<Rightarrow> int \<Rightarrow> int \<Rightarrow> int \<Rightarrow> int \<Rightarrow> 'b tfprocess \<Rightarrow> 'b result" where
  "loop env cfg batch_size test_batches batch_splits steps total_steps' s =
     (if total_steps' = 0 then (Some ZeroDivisionError, s)
      else loop_iterations env cfg batch_size test_batches batch_splits
             (nat (total_steps' - steps mod total_steps')) s)"

text \<open>
  \<^verbatim>\<open>process_loop\<close>. The check of the batch size reads the attribute
  \<^verbatim>\<open>self.virtual_batch_sizes\<close>, which no method of the class ever sets, before it reaches
  its \<^verbatim>\<open>raise ValueError\<close>.
\<close>

definition process_loop ::
  "'b env \<Rightarrow> config \<Rightarrow> int \<Rightarrow> int \<Rightarrow> int \<Rightarrow> 'b tfprocess \<Rightarrow> 'b result" where
  "process_loop env cfg batch_size test_batches batch_splits s =
     (let test_batches = (if swa_enabled cfg then test_batches div 2 else test_batches)
      in if (case virtual_batch_size cfg of
               None \<Rightarrow> False
             | Some v \<Rightarrow> v \<noteq> 0 \<and> batch_size mod v \<noteq> 0)
         then (Some (AttributeError ''virtual_batch_sizes''), s)
         else
           (let steps = global_step s;
                s = s\<lparr>last_steps := steps\<rparr>
            in loop env cfg batch_size test_batches batch_splits steps (total_steps cfg) s))"

section \<open>Loading weights\<close>

text \<open>
  The parsed network file: the head formats and input format of its header, and the
  dictionary that \<^verbatim>\<open>self.net.get_weights_v2(names)\<close> returns (the class \<^verbatim>\<open>Net\<close> is not
  part of this file).
\<close>

record net =
  net_policy :: int
  net_value :: int
  net_input :: int
  get_weights_v2 :: "string \<Rightarrow> tensor option"

text \<open>Python's \<^verbatim>\<open>sub in s\<close> on strings, and the formatting of the two messages.\<close>

fun startswith :: "string \<Rightarrow> string \<Rightarrow> bool" where
  "startswith s [] = True"
| "startswith [] (p # ps) = False"
| "startswith (c # cs) (p # ps) = (c = p \<and> startswith cs ps)"

fun str_in :: "string \<Rightarrow> string \<Rightarrow> bool" where
  "str_in sub [] = (sub = [])"
| "str_in sub (c # cs) = (startswith (c # cs) sub \<or> str_in sub cs)"

fun str_nat :: "nat \<Rightarrow> string" where
  "str_nat n =
     (if n < 10 then [''0123456789'' ! n]
      else str_nat (n div 10) @ [''0123456789'' ! (n mod 10)])"

declare str_nat.simps [simp del]

fun join :: "string \<Rightarrow> string list \<Rightarrow> string" where
  "join sep [] = []"
| "join sep [x] = x"
| "join sep (x # y # ys) = x @ sep @ join sep (y # ys)"

definition str_shape :: "nat list \<Rightarrow> string" where
  "str_shape s = ''['' @ join '', '' (map str_nat s) @ '']''"

text \<open>
  The conversion of a loaded value to the layout of the weight: the rescaling of the
  rule-50 input plane of old network formats, the transposition of convolution kernels
  (loaded with shape \<open>[s3, s2, s0, s1]\<close>, transposed with permutation \<open>[2, 3, 1, 0]\<close>) and of
  dense kernels (loaded with shape \<open>[s1, s0]\<close>, transposed).
\<close>

definition rescale_rule50 :: "tensor \<Rightarrow> tensor" where
  "rescale_rule50 new_weight =
     map (\<lambda>(i, x). if (i mod (112 * 9)) div 9 = 109 then x * 99 else x)
       (enumerate 0 new_weight)"

definition transpose_conv :: "nat \<Rightarrow> nat \<Rightarrow> nat \<Rightarrow> nat \<Rightarrow> tensor \<Rightarrow> tensor" where
  "transpose_conv s0 s1 s2 s3 new_weight =
     [new_weight ! (((o' * s2 + i) * s0 + h) * s1 + w).
        h \<leftarrow> [0..<s0], w \<leftarrow> [0..<s1], i \<leftarrow> [0..<s2], o' \<leftarrow> [0..<s3]]"

definition transpose_dense :: "nat \<Rightarrow> nat \<Rightarrow> tensor \<Rightarrow> tensor" where
  "transpose_dense s0 s1 new_weight = [new_weight ! (j * s0 + i). i \<leftarrow> [0..<s0], j \<leftarrow> [0..<s1]]"

definition convert_weight :: "config \<Rightarrow> net \<Rightarrow> variable \<Rightarrow> tensor \<Rightarrow> tensor" where
  "convert_weight cfg nt weight new_weight =
     (case shape weight of
        [s0, s1, s2, s3] \<Rightarrow>
          (let new_weight =
                 (if name weight = ''input/conv2d/kernel:0''
                     \<and> net_input nt < INPUT_112_WITH_CANONICALIZATION_HECTOPLIES cfg
                  then rescale_rule50 new_weight else new_weight)
           in transpose_conv s0 s1 s2 s3 new_weight)
      | [s0, s1] \<Rightarrow> transpose_dense s0 s1 new_weight
      | _ \<Rightarrow> new_weight)"

text \<open>
  The checks of the loop body of \<^verbatim>\<open>replace_weights\<close> on one weight, in the order of the
  source: the name contains \<^verbatim>\<open>renorm\<close>; no value in the dictionary; a value of the wrong
  length.
\<close>

datatype lookup = Renorm | Mismatch string | Matched tensor

definition lookup_weight :: "net \<Rightarrow> variable \<Rightarrow> lookup" where
  "lookup_weight nt weight =
     (if str_in ''renorm'' (name weight) then Renorm
      else case get_weights_v2 nt (name weight) of
             None \<Rightarrow> Mismatch (''No values for tensor '' @ name weight @ '' in protobuf'')
           | Some new_weight \<Rightarrow>
               if prod_list (shape weight) \<noteq> length new_weight
               then Mismatch (''Tensor '' @ name weight @ '' has wrong length. Tensorflow shape ''
                                @ str_shape (shape weight) @ '', size in protobuf ''
                                @ str_nat (length new_weight))
               else Matched new_weight)"

text \<open>
  The loop \<^verbatim>\<open>for weight in self.model.weights\<close>: the exception raised, the weights after
  the loop and the messages printed.
\<close>

fun assign_weights ::
  "config \<Rightarrow> net \<Rightarrow> bool \<Rightarrow> variable list \<Rightarrow> error option \<times> variable list \<times> string list" where
  "assign_weights cfg nt ignore_errors [] = (None, [], [])"
| "assign_weights cfg nt ignore_errors (weight # rest) =
     (case lookup_weight nt weight of
        Renorm \<Rightarrow>
          (let (e, ws, out) = assign_weights cfg nt ignore_errors rest in (e, weight # ws, out))
      | Mismatch error_string \<Rightarrow>
          if ignore_errors then
            (let (e, ws, out) = assign_weights cfg nt ignore_errors rest
             in (e, weight # ws, error_string # out))
          else (Some (KeyError error_string), weight # rest, [])
      | Matched new_weight \<Rightarrow>
          (let (e, ws, out) = assign_weights cfg nt ignore_errors rest
           in (e, weight\<lparr>data := convert_weight cfg nt weight new_weight\<rparr> # ws, out)))"

definition replace_weights :: "config \<Rightarrow> net \<Rightarrow> bool \<Rightarrow> 'b tfprocess \<Rightarrow> 'b result" where
  "replace_weights cfg nt ignore_errors s =
     (if \<not> ignore_errors \<and> POLICY_HEAD cfg \<noteq> net_policy nt
        then (Some (ValueError ''Policy head type doesn't match the network''), s)
      else if \<not> ignore_errors \<and> VALUE_HEAD cfg \<noteq> net_value nt
        then (Some (ValueError ''Value head type doesn't match the network''), s)
      else
        (let (e, ws, out) = assign_weights cfg nt ignore_errors (weights s);
             s = s\<lparr>weights := ws, printed := printed s @ out\<rparr>
         in case e of
              Some err \<Rightarrow> (Some err, s)
            | None \<Rightarrow>
                if swa_enabled cfg then update_swa cfg (s\<lparr>swa_count := 0\<rparr>)
                else (None, s)))"

text \<open>
  A weight-loading mismatch in the words of the specification: the tensor has no value in
  the loaded file, or the loaded value has not as many elements as the shape of the tensor.
\<close>

definition weight_mismatch :: "net \<Rightarrow> variable \<Rightarrow> bool" where
  "weight_mismatch nt weight =
     (case get_weights_v2 nt (name weight) of
        None \<Rightarrow> True
      | Some new_weight \<Rightarrow> prod_list (shape weight) \<noteq> length new_weight)"

definition is_renorm :: "variable \<Rightarrow> bool" where
  "is_renorm weight = str_in ''renorm'' (name weight)"

section \<open>Counting test passes\<close>


section \<open>A small configuration and state\<close>

text \<open>Concrete inputs on which the theorems below are instantiated; a batch is a number.\<close>

definition example_cfg :: config where
  "example_cfg =
     \<lparr>lr_values = [1/10, 1/100, 1/1000], lr_boundaries = [200, 100], total_steps = 250,
      warmup_steps = 10, test_steps = 50, train_avg_report_steps = 10, swa_steps = 5,
      swa_enabled = True, swa_max_n = 10, max_grad_norm = 10000, loss_scale = 1,
      rmsprop_optimizer = False, nadam_optimizer = False, weight_decay = 0,
      lookahead_optimizer = False, virtual_batch_size = Some 64, num_replicas_in_sync = None, POLICY_HEAD = 4,
      VALUE_HEAD = 2, INPUT_112_WITH_CANONICALIZATION_HECTOPLIES = 4\<rparr>"

definition example_metrics :: "Metric list" where
  "example_metrics =
     [Metric_init ''P'' ''Policy Loss'' '''', Metric_init ''V'' ''Value Loss'' '''',
      Metric_init ''ML'' ''Moves Left Loss'' '''', Metric_init ''V MSE'' ''MSE Loss'' '''',
      Metric_init ''P Acc'' ''Policy Accuracy'' ''%'']"

definition example_state :: "nat tfprocess" where
  "example_state =
     \<lparr>weights = [\<lparr>name = ''embedding/kernel:0'', shape = [1, 2], data = [1, 2]\<rparr>,
                 \<lparr>name = ''embedding/bias:0'', shape = [2], data = [3, 4]\<rparr>],
      accum = [[0, 0], [0, 0]], rms = [[0, 0], [0, 0]], mg = [[0, 0], [0, 0]],
      loss_scale_value = 32768, good_steps = 0, opt_slots = [], active_lr = 1/100, lr = 1/10, global_step = 0, last_steps = 0,
      swa_weights = Some [[5, 6], [7, 8]], swa_count = 0,
      train_iter = [0, 1, 2, 3], test_iter = [0, 1, 2, 3],
      train_metrics = example_metrics, test_metrics = example_metrics,
      test_writer = ''test'', swa_writer = ''swa-test'',
      pb_learning_rate = 0, pb_mse_loss = 0, pb_policy_loss = 0, pb_accuracy = 0,
      saved_protos = [], printed = []\<rparr>"

definition example_env :: "nat env" where
  "example_env =
     \<lparr>process_inner_loop = (\<lambda>ws b. ([1, 2, 3, 4, 5], [[[3, 4], [0, 12]]])),
      calculate_test_summaries_inner_loop = (\<lambda>ws b. [1, 2, 3, 4, 5]),
      save_proto = (\<lambda>filename ws. None),
      after_test = (\<lambda>steps s. (None, s)),
      library_apply_gradients = (\<lambda>opt learning_rate gs ws slots. (ws, slots))\<rparr>"

definition example_net :: net where
  "example_net =
     \<lparr>net_policy = 4, net_value = 2, net_input = 1,
      get_weights_v2 = [''embedding/kernel:0'' \<mapsto> [10, 20], ''embedding/bias:0'' \<mapsto> [30]]\<rparr>"

section \<open>Properties of Metric\<close>

lemma reachable_inv:
  "reachable m \<Longrightarrow> 0 \<le> count m \<and> (count m = 0 \<longrightarrow> val m = 0)"
proof (induction rule: reachable.induct)
  case (r_merge m other m')
  then show ?case
    by (auto simp: merge_def split: if_splits)
qed (auto simp: Metric_init_def assign_def accumulate_def reset_def)

text \<open>
  C9. Every Metric reachable through construction, assign, accumulate, merge with another
  reachable Metric, and reset has value 0 whenever its count is 0 (and its count is never
  negative); so get returns the mean value / count when count > 0 and 0 when count = 0.
\<close>

theorem metric_invariant:
  assumes "reachable m"
  shows "(count m = 0 \<longrightarrow> val m = 0)
       \<and> (count m > 0 \<longrightarrow> get m = val m / real_of_int (count m))
       \<and> (count m = 0 \<longrightarrow> get m = 0)
       \<and> 0 \<le> count m"
  using reachable_inv [OF assms] by (auto simp: get_def)

theorem metric_invariant_witness:
  "reachable (accumulate (accumulate (Metric_init ''P'' ''Policy Loss'' '''') 2) 4)
   \<and> get (accumulate (accumulate (Metric_init ''P'' ''Policy Loss'' '''') 2) 4) = 3
   \<and> reachable (reset (accumulate (Metric_init ''P'' ''Policy Loss'' '''') 2))
   \<and> get (reset (accumulate (Metric_init ''P'' ''Policy Loss'' '''') 2)) = 0"
proof -
  let ?m0 = "Metric_init ''P'' ''Policy Loss'' ''''"
  have r1: "reachable (accumulate (accumulate ?m0 2) 4)"
    by (intro r_accumulate r_init)
  have r2: "reachable (reset (accumulate ?m0 2))"
    by (intro r_reset r_accumulate r_init)
  show ?thesis
    using r1 r2 metric_invariant [OF r1] metric_invariant [OF r2]
    by (simp add: Metric_init_def accumulate_def assign_def reset_def)
qed

section \<open>Properties of the loss assembly\<close>

text \<open>
  C5. For every batch of WDL rows and every number of buckets of at least 1,
  make_value_buckets returns one index per row, and every index lies in the half-open
  range from 0 to num_buckets; this includes rows whose projection win + draw / 2 is
  exactly 0 or exactly 1, or outside of the unit interval.
\<close>

theorem make_value_buckets_range:
  assumes "1 \<le> num_buckets"
  shows "length (make_value_buckets value_wdl num_buckets) = length value_wdl
       \<and> (\<forall>b \<in> set (make_value_buckets value_wdl num_buckets). 0 \<le> b \<and> b < num_buckets)"
  using assms by (auto simp: make_value_buckets_def clip_by_value_def Let_def einsum_bi_i_def)

theorem make_value_buckets_range_witness:
  "make_value_buckets [[1, 0, 0], [0, 0, 1], [0, 1, 0], [3, 0, 0], [0, 0, -2], [-1, 0, 0]] 100
     = [99, 0, 50, 99, 0, 0]
   \<and> list_all (\<lambda>b. 0 \<le> b \<and> b < 100)
        (make_value_buckets [[1, 0, 0], [0, 0, 1], [0, 1, 0], [3, 0, 0], [0, 0, -2], [-1, 0, 0]] 100)"
  using make_value_buckets_range
    [of 100 "[[1, 0, 0], [0, 0, 1], [0, 1, 0], [3, 0, 0], [0, 0, -2], [-1, 0, 0]]"]
  by (simp add: make_value_buckets_def clip_by_value_def einsum_bi_i_def cast_int64_def)

lemma masked_row_eq:
  assumes "length o1 = length t" "length o2 = length t"
    and "\<forall>i < length t. t ! i \<ge> 0 \<longrightarrow> o1 ! i = o2 ! i"
  shows "map2 (\<lambda>cv (xv, yv). if cv then xv else yv) (map (\<lambda>t. t \<ge> 0) t)
           (zip o1 (map (\<lambda>_. 0 - 10000000000) o1))
       = map2 (\<lambda>cv (xv, yv). if cv then xv else yv) (map (\<lambda>t. t \<ge> (0::real)) t)
           (zip o2 (map (\<lambda>_. 0 - (10000000000::real)) o2))"
  using assms by (intro nth_equalityI) auto

lemma correct_policy_masked_eq:
  assumes "length output1 = length target" "length output2 = length target"
    and "\<forall>b < length target.
           length (output1 ! b) = length (target ! b) \<and> length (output2 ! b) = length (target ! b)
           \<and> (\<forall>i < length (target ! b). target ! b ! i \<ge> 0 \<longrightarrow> output1 ! b ! i = output2 ! b ! i)"
  shows "correct_policy True target output1 = correct_policy True target output2"
proof -
  have "tf_where (map (map (\<lambda>t. t \<ge> 0)) target) output1 (map (map (\<lambda>_. 0 - 10000000000)) output1)
      = tf_where (map (map (\<lambda>t. t \<ge> 0)) target) output2 (map (map (\<lambda>_. 0 - 10000000000)) output2)"
    unfolding tf_where_def
  proof (rule nth_equalityI, goal_cases)
    case 1
    show ?case using assms(1,2) by simp
  next
    case (2 b)
    then have b: "b < length target" using assms(1) by simp
    with assms(3) have r: "length (output1 ! b) = length (target ! b)"
      "length (output2 ! b) = length (target ! b)"
      "\<forall>i < length (target ! b). target ! b ! i \<ge> 0 \<longrightarrow> output1 ! b ! i = output2 ! b ! i"
      by auto
    show ?case
      using b assms(1,2) masked_row_eq [OF r] by simp
  qed
  then show ?thesis by (simp add: correct_policy_def)
qed

text \<open>
  C3. With legal-move masking enabled, two batches of logits of the shape of the target that
  agree on every coordinate where the target is not negative (the legal moves) have the
  same policy loss: the loss does not depend on the logits of illegal moves.
\<close>

theorem policy_loss_masked_invariant:
  assumes "length output1 = length target" "length output2 = length target"
    and "\<forall>b < length target.
           length (output1 ! b) = length (target ! b) \<and> length (output2 ! b) = length (target ! b)
           \<and> (\<forall>i < length (target ! b). target ! b ! i \<ge> 0 \<longrightarrow> output1 ! b ! i = output2 ! b ! i)"
  shows "policy_loss True target output1 = policy_loss True target output2"
  unfolding policy_loss_def correct_policy_masked_eq [OF assms] ..

theorem policy_loss_masked_invariant_witness:
  "policy_loss True [[1/2, -1, 1/2], [-1, 1, 0]] [[1, 5, 2], [7, 0, 3]]
     = policy_loss True [[1/2, -1, 1/2], [-1, 1, 0]] [[1, -4, 2], [100, 0, 3]]"
  by (rule policy_loss_masked_invariant) (simp_all add: nth_Cons' less_Suc_eq)


section \<open>Properties of the learning-rate schedule\<close>

lemma bisect_right_loop_spec:
  assumes "sorted a" "lo \<le> hi" "hi \<le> length a"
    "\<forall>i<lo. a ! i \<le> x" "\<forall>i. hi \<le> i \<and> i < length a \<longrightarrow> x < a ! i"
  shows "bisect_right_loop a x lo hi \<le> length a
       \<and> (\<forall>i < bisect_right_loop a x lo hi. a ! i \<le> x)
       \<and> (\<forall>i. bisect_right_loop a x lo hi \<le> i \<and> i < length a \<longrightarrow> x < a ! i)"
  using assms
proof (induction a x lo hi rule: bisect_right_loop.induct)
  case (1 a x lo hi)
  show ?case
  proof (cases "lo < hi")
    case False
    have eq: "bisect_right_loop a x lo hi = lo"
      using False by (subst bisect_right_loop.simps) simp
    have "lo = hi" using False "1.prems"(2) by simp
    with "1.prems" show ?thesis unfolding eq by simp
  next
    case True
    define mid where "mid = (lo + hi) div 2"
    have mid: "lo \<le> mid" "mid < hi" using True by (auto simp: mid_def)
    show ?thesis
    proof (cases "x < a ! mid")
      case lt: True
      have up: "\<forall>i. mid \<le> i \<and> i < length a \<longrightarrow> x < a ! i"
      proof (intro allI impI)
        fix i assume i: "mid \<le> i \<and> i < length a"
        then have "a ! mid \<le> a ! i" using "1.prems"(1) by (simp add: sorted_nth_mono)
        with lt show "x < a ! i" by simp
      qed
      have eq: "bisect_right_loop a x lo hi = bisect_right_loop a x lo mid"
        using True lt by (simp add: bisect_right_loop.simps [of a x lo hi] mid_def Let_def)
      have "mid \<le> length a" using mid "1.prems"(3) by simp
      from "1.IH"(1) [OF True mid_def lt "1.prems"(1) mid(1) this "1.prems"(4) up]
      show ?thesis unfolding eq .
    next
      case ge: False
      have low: "\<forall>i<mid + 1. a ! i \<le> x"
      proof (intro allI impI)
        fix i assume i: "i < mid + 1"
        then have "a ! i \<le> a ! mid" using "1.prems"(1,3) mid by (simp add: sorted_nth_mono)
        with ge show "a ! i \<le> x" by simp
      qed
      have eq: "bisect_right_loop a x lo hi = bisect_right_loop a x (mid + 1) hi"
        using True ge by (simp add: bisect_right_loop.simps [of a x lo hi] mid_def Let_def)
      have "mid + 1 \<le> hi" using mid by simp
      from "1.IH"(2) [OF True mid_def ge "1.prems"(1) this "1.prems"(3) low "1.prems"(5)]
      show ?thesis unfolding eq .
    qed
  qed
qed

lemma filter_le_sorted_take:
  assumes "r \<le> length a" "\<forall>i<r. a ! i \<le> (x::int)" "\<forall>i. r \<le> i \<and> i < length a \<longrightarrow> x < a ! i"
  shows "filter (\<lambda>b. b \<le> x) a = take r a"
proof -
  have "a = take r a @ drop r a" by simp
  moreover have "filter (\<lambda>b. b \<le> x) (take r a) = take r a"
    using assms by (auto simp: filter_id_conv in_set_conv_nth)
  moreover have "filter (\<lambda>b. b \<le> x) (drop r a) = []"
  proof -
    have "\<not> b \<le> x" if "b \<in> set (drop r a)" for b
    proof -
      from that obtain i where i: "i < length a - r" "b = a ! (r + i)"
        by (auto simp: in_set_conv_nth)
      then have "x < a ! (r + i)" using assms(3) by simp
      with i show ?thesis by simp
    qed
    then show ?thesis by (simp add: filter_empty_conv)
  qed
  ultimately show ?thesis by (metis append_Nil2 filter_append)
qed

lemma bisect_right_count:
  assumes "sorted a"
  shows "bisect_right a x = length (filter (\<lambda>b. b \<le> x) a)"
proof -
  let ?r = "bisect_right a x"
  have s: "?r \<le> length a \<and> (\<forall>i < ?r. a ! i \<le> x) \<and> (\<forall>i. ?r \<le> i \<and> i < length a \<longrightarrow> x < a ! i)"
    unfolding bisect_right_def using bisect_right_loop_spec [OF assms, of 0 "length a" x] by simp
  then have "filter (\<lambda>b. b \<le> x) a = take ?r a"
    using filter_le_sorted_take by blast
  with s show ?thesis by simp
qed


lemma determine_lr_sorted:
  assumes "total_steps cfg \<noteq> 0" "sorted (lr_boundaries cfg)"
    and "length (lr_boundaries cfg) < length (lr_values cfg)"
  shows "determine_lr cfg steps =
           Inr (let base = lr_values cfg
                      ! length (filter (\<lambda>b. b \<le> steps mod total_steps cfg) (lr_boundaries cfg))
                in if warmup_steps cfg > 0 \<and> steps < warmup_steps cfg
                   then base * real_of_int (steps + 1) / real_of_int (warmup_steps cfg)
                   else base)"
proof -
  let ?k = "length (filter (\<lambda>b. b \<le> steps mod total_steps cfg) (lr_boundaries cfg))"
  have "?k \<le> length (lr_boundaries cfg)" by simp
  with assms(3) have "?k < length (lr_values cfg)" by linarith
  then show ?thesis
    using assms(1) by (simp add: determine_lr_def bisect_right_count [OF assms(2)] Let_def)
qed

text \<open>
  C2. With boundaries that sort to [b1, b2] and values [v0, v1, v2], the learning rate that
  process computes at any step counter is v0 when step mod total_steps is below b1, v1 from
  b1 and below b2, and v2 from b2 on, which is the value at the index that counts the
  boundaries not above step mod total_steps; when warmup_steps is positive and the step
  counter is below it, that value is multiplied by (step + 1) / warmup_steps.
\<close>

theorem lr_schedule:
  assumes total: "total_steps cfg \<noteq> 0"
    and bounds: "sort (lr_boundaries cfg) = [b1, b2]"
    and vals: "lr_values cfg = [v0, v1, v2]"
  shows "determine_lr (init_net_cfg cfg) steps =
           Inr ((if steps mod total_steps cfg < b1 then v0
                 else if steps mod total_steps cfg < b2 then v1 else v2)
                * (if 0 < warmup_steps cfg \<and> steps < warmup_steps cfg
                   then real_of_int (steps + 1) / real_of_int (warmup_steps cfg) else 1))
       \<and> (if steps mod total_steps cfg < b1 then v0
           else if steps mod total_steps cfg < b2 then v1 else v2)
          = lr_values cfg ! length (filter (\<lambda>b. b \<le> steps mod total_steps cfg) [b1, b2])"
proof -
  let ?cfg = "init_net_cfg cfg"
  have srt: "sorted [b1, b2]" using sorted_sort [of "lr_boundaries cfg"] bounds by simp
  then have le: "b1 \<le> b2" by simp
  have c: "total_steps ?cfg \<noteq> 0" "sorted (lr_boundaries ?cfg)"
    "length (lr_boundaries ?cfg) < length (lr_values ?cfg)"
    "lr_boundaries ?cfg = [b1, b2]" "lr_values ?cfg = [v0, v1, v2]"
    "warmup_steps ?cfg = warmup_steps cfg" "total_steps ?cfg = total_steps cfg"
    using total bounds vals srt by (simp_all add: init_net_cfg_def)
  show ?thesis
    unfolding determine_lr_sorted [OF c(1-3)] using le
    by (simp add: c(4-7) vals Let_def)
qed

theorem lr_schedule_witness:
  "determine_lr (init_net_cfg example_cfg) 4 = Inr (1 / 20)
   \<and> determine_lr (init_net_cfg example_cfg) 150 = Inr (1 / 100)
   \<and> determine_lr (init_net_cfg example_cfg) 450 = Inr (1 / 1000)"
proof -
  have t: "total_steps example_cfg \<noteq> 0" by (simp add: example_cfg_def)
  have b: "sort (lr_boundaries example_cfg) = [100, 200]" by (simp add: example_cfg_def)
  have v: "lr_values example_cfg = [1/10, 1/100, 1/1000]" by (simp add: example_cfg_def)
  show ?thesis
    using lr_schedule [OF t b v, of 4] lr_schedule [OF t b v, of 150]
      lr_schedule [OF t b v, of 450]
    by (simp add: example_cfg_def)
qed

section \<open>Properties of the gradient pipeline\<close>































section \<open>Properties of stochastic weight averaging\<close>

lemma round_half_even_of_int: "round_half_even (real_of_int n) = n"
  by (simp add: round_half_even_def)

lemma f32_eval:
  assumes "2 powr real_of_int k \<le> \<bar>x\<bar>" and "\<bar>x\<bar> < 2 powr real_of_int (k + 1)"
  shows "f32 x = real_of_int (round_half_even (x / 2 powr real_of_int (k - 23)))
                   * 2 powr real_of_int (k - 23)"
proof -
  have pos: "0 < \<bar>x\<bar>"
    using assms(1) by (smt (verit) powr_gt_zero)
  then have "\<lfloor>log 2 \<bar>x\<bar>\<rfloor> = k"
    using assms by (simp add: floor_log_eq_powr_iff)
  moreover have "x \<noteq> 0" using pos by simp
  ultimately show ?thesis by (simp add: f32_def Let_def)
qed






lemma f32_10: "f32 10 = 10"
  using f32_eval [of 3 10] by (simp add: round_half_even_def powr_neg_numeral)


















section \<open>Properties of the test passes\<close>

lemma assign_all_same: "assign_all (map data ws) ws = ws"
  by (induction ws) simp_all

lemma assign_all_restore: "assign_all (map data ws) (assign_all vs ws) = ws"
  by (induction vs ws rule: assign_all.induct) (simp_all add: assign_all_same)

lemma length_accumulate_all: "length (accumulate_all ms vs) = length ms"
  by (induction ms vs rule: accumulate_all.induct) simp_all

lemma test_batches_loop_frame:
  "weights (snd (test_batches_loop env n s)) = weights s
   \<and> swa_weights (snd (test_batches_loop env n s)) = swa_weights s
   \<and> test_writer (snd (test_batches_loop env n s)) = test_writer s
   \<and> lr (snd (test_batches_loop env n s)) = lr s
   \<and> length (test_metrics (snd (test_batches_loop env n s))) = length (test_metrics s)"
proof (induction n arbitrary: s)
  case 0
  show ?case by simp
next
  case (Suc n)
  show ?case
  proof (cases "test_iter s")
    case Nil
    then show ?thesis by simp
  next
    case (Cons b rest)
    let ?s1 = "s\<lparr>test_iter := rest,
                   test_metrics := accumulate_all (test_metrics s)
                     (calculate_test_summaries_inner_loop env (weights s) b)\<rparr>"
    have "test_batches_loop env (Suc n) s = test_batches_loop env n ?s1"
      by (simp add: Cons)
    with Suc [of ?s1] show ?thesis by (simp add: length_accumulate_all)
  qed
qed

lemma test_batches_loop_enough:
  assumes "n \<le> length (test_iter s)"
  shows "fst (test_batches_loop env n s) = None
       \<and> test_iter (snd (test_batches_loop env n s)) = drop n (test_iter s)"
  using assms
proof (induction n arbitrary: s)
  case 0
  show ?case by simp
next
  case (Suc n)
  then obtain b rest where it: "test_iter s = b # rest" by (cases "test_iter s") auto
  let ?s1 = "s\<lparr>test_iter := rest,
                 test_metrics := accumulate_all (test_metrics s)
                   (calculate_test_summaries_inner_loop env (weights s) b)\<rparr>"
  have "n \<le> length (test_iter ?s1)" using Suc.prems it by simp
  from Suc.IH [OF this] show ?case by (simp add: it)
qed

lemma calculate_test_summaries_frame:
  "weights (snd (calculate_test_summaries env test_batches steps s)) = weights s
   \<and> swa_weights (snd (calculate_test_summaries env test_batches steps s)) = swa_weights s
   \<and> test_writer (snd (calculate_test_summaries env test_batches steps s)) = test_writer s"
proof -
  let ?s0 = "s\<lparr>test_metrics := map reset (test_metrics s)\<rparr>"
  obtain e s1 where r: "test_batches_loop env (nat test_batches) ?s0 = (e, s1)"
    by (cases "test_batches_loop env (nat test_batches) ?s0")
  from test_batches_loop_frame [of env "nat test_batches" ?s0] r
  have "weights s1 = weights s" "swa_weights s1 = swa_weights s" "test_writer s1 = test_writer s"
    by simp_all
  then show ?thesis
    by (cases e) (simp_all add: calculate_test_summaries_def r Let_def)
qed

lemma calculate_test_summaries_enough:
  assumes "nat test_batches \<le> length (test_iter s)" and "5 \<le> length (test_metrics s)"
  shows "fst (calculate_test_summaries env test_batches steps s) = None
       \<and> test_iter (snd (calculate_test_summaries env test_batches steps s))
           = drop (nat test_batches) (test_iter s)"
proof -
  let ?s0 = "s\<lparr>test_metrics := map reset (test_metrics s)\<rparr>"
  obtain e s1 where r: "test_batches_loop env (nat test_batches) ?s0 = (e, s1)"
    by (cases "test_batches_loop env (nat test_batches) ?s0")
  have "nat test_batches \<le> length (test_iter ?s0)" using assms(1) by simp
  from test_batches_loop_enough [OF this, of env] r
  have e: "e = None" and it: "test_iter s1 = drop (nat test_batches) (test_iter s)" by simp_all
  from test_batches_loop_frame [of env "nat test_batches" ?s0] r assms(2)
  have len: "5 \<le> length (test_metrics s1)" by simp
  show ?thesis
    using len it by (simp add: calculate_test_summaries_def r e Let_def)
qed

lemma calculate_swa_summaries_enough:
  assumes "nat test_batches \<le> length (test_iter s)" and "5 \<le> length (test_metrics s)"
    and "swa_weights s = Some swas"
  shows "fst (calculate_swa_summaries env test_batches steps s) = None
       \<and> test_iter (snd (calculate_swa_summaries env test_batches steps s))
           = drop (nat test_batches) (test_iter s)"
proof -
  let ?s2 = "s\<lparr>weights := assign_all swas (weights s), test_writer := swa_writer s\<rparr>"
  obtain e s3 where r: "calculate_test_summaries env test_batches steps ?s2 = (e, s3)"
    by (cases "calculate_test_summaries env test_batches steps ?s2")
  have "nat test_batches \<le> length (test_iter ?s2)" "5 \<le> length (test_metrics ?s2)"
    using assms(1,2) by simp_all
  from calculate_test_summaries_enough [OF this, of env steps] r
  have "e = None" "test_iter s3 = drop (nat test_batches) (test_iter s)" by simp_all
  then show ?thesis
    by (simp add: calculate_swa_summaries_def assms(3) Let_def r)
qed

lemma calculate_swa_summaries_frame:
  "swa_weights (snd (calculate_swa_summaries env test_batches steps s)) = swa_weights s
   \<and> (fst (calculate_swa_summaries env test_batches steps s) = None \<longrightarrow>
        weights (snd (calculate_swa_summaries env test_batches steps s)) = weights s
        \<and> test_writer (snd (calculate_swa_summaries env test_batches steps s)) = test_writer s)"
proof (cases "swa_weights s")
  case None
  then show ?thesis by (simp add: calculate_swa_summaries_def)
next
  case (Some swas)
  let ?s2 = "s\<lparr>weights := assign_all swas (weights s), test_writer := swa_writer s\<rparr>"
  obtain e s3 where r: "calculate_test_summaries env test_batches steps ?s2 = (e, s3)"
    by (cases "calculate_test_summaries env test_batches steps ?s2")
  from calculate_test_summaries_frame [of env test_batches steps ?s2] r
  have f: "weights s3 = assign_all swas (weights s)" "swa_weights s3 = swa_weights s"
    by simp_all
  show ?thesis
    by (cases e)
      (simp_all add: calculate_swa_summaries_def Some Let_def r f read_weights_def
        assign_all_restore)
qed

lemma save_swa_weights_frame:
  "swa_weights (snd (save_swa_weights env filename s)) = swa_weights s
   \<and> (fst (save_swa_weights env filename s) = None \<longrightarrow>
        weights (snd (save_swa_weights env filename s)) = weights s)"
proof (cases "swa_weights s")
  case None
  then show ?thesis by (simp add: save_swa_weights_def)
next
  case (Some swas)
  let ?s1 = "s\<lparr>weights := assign_all swas (weights s)\<rparr>"
  show ?thesis
    by (cases "save_proto env filename (map (\<lambda>weight. (name weight, data weight)) (weights ?s1))")
      (simp_all add: save_swa_weights_def save_leelaz_weights_def Some Let_def read_weights_def
        assign_all_restore)
qed

text \<open>
  C6, as amended. calculate_swa_summaries and save_swa_weights never change the SWA shadow
  weights, and when they return normally every live weight (and the test writer) is what
  it was before the call. They do return normally when SWA is enabled, the test iterator
  holds enough batches and the five metrics read afterwards exist (respectively when the
  serialisation does not raise). Nothing is promised after an exception.
\<close>

theorem swa_evaluation_restores_weights:
  "swa_weights (snd (calculate_swa_summaries env test_batches steps s)) = swa_weights s
   \<and> swa_weights (snd (save_swa_weights env filename s)) = swa_weights s
   \<and> (fst (calculate_swa_summaries env test_batches steps s) = None \<longrightarrow>
        weights (snd (calculate_swa_summaries env test_batches steps s)) = weights s
        \<and> test_writer (snd (calculate_swa_summaries env test_batches steps s)) = test_writer s)
   \<and> (fst (save_swa_weights env filename s) = None \<longrightarrow>
        weights (snd (save_swa_weights env filename s)) = weights s)
   \<and> (swa_weights s \<noteq> None \<and> nat test_batches \<le> length (test_iter s)
        \<and> 5 \<le> length (test_metrics s) \<longrightarrow>
        fst (calculate_swa_summaries env test_batches steps s) = None)
   \<and> (swa_weights s \<noteq> None
        \<and> save_proto env filename
             (map (\<lambda>weight. (name weight, data weight))
                (assign_all (the (swa_weights s)) (weights s))) = None \<longrightarrow>
        fst (save_swa_weights env filename s) = None)"
proof -
  have "fst (calculate_swa_summaries env test_batches steps s) = None"
    if "swa_weights s \<noteq> None" "nat test_batches \<le> length (test_iter s)"
       "5 \<le> length (test_metrics s)"
    using that calculate_swa_summaries_enough [of test_batches s _ env steps] by auto
  moreover have "fst (save_swa_weights env filename s) = None"
    if "swa_weights s \<noteq> None"
       "save_proto env filename (map (\<lambda>weight. (name weight, data weight))
          (assign_all (the (swa_weights s)) (weights s))) = None"
    using that by (auto simp: save_swa_weights_def save_leelaz_weights_def Let_def)
  ultimately show ?thesis
    using calculate_swa_summaries_frame [of env test_batches steps s]
      save_swa_weights_frame [of env filename s]
    by blast
qed

theorem swa_evaluation_restores_weights_witness:
  "fst (calculate_swa_summaries example_env 2 1 example_state) = None
   \<and> weights (snd (calculate_swa_summaries example_env 2 1 example_state)) = weights example_state
   \<and> swa_weights (snd (calculate_swa_summaries example_env 2 1 example_state)) = Some [[5, 6], [7, 8]]
   \<and> fst (save_swa_weights example_env ''swa.pb.gz'' example_state) = None
   \<and> weights (snd (save_swa_weights example_env ''swa.pb.gz'' example_state)) = weights example_state
   \<and> saved_protos (snd (save_swa_weights example_env ''swa.pb.gz'' example_state))
       = [(''swa.pb.gz'', [(''embedding/kernel:0'', [5, 6]), (''embedding/bias:0'', [7, 8])])]"
proof -
  have a: "swa_weights example_state \<noteq> None \<and> nat 2 \<le> length (test_iter example_state)
           \<and> 5 \<le> length (test_metrics example_state)"
    by (simp add: example_state_def example_metrics_def)
  have b: "swa_weights example_state \<noteq> None
           \<and> save_proto example_env ''swa.pb.gz''
               (map (\<lambda>weight. (name weight, data weight))
                  (assign_all (the (swa_weights example_state)) (weights example_state))) = None"
    by (simp add: example_state_def example_env_def)
  have c: "saved_protos (snd (save_swa_weights example_env ''swa.pb.gz'' example_state))
       = [(''swa.pb.gz'', [(''embedding/kernel:0'', [5, 6]), (''embedding/bias:0'', [7, 8])])]"
    by (simp add: save_swa_weights_def save_leelaz_weights_def example_state_def example_env_def
        read_weights_def)
  show ?thesis
    using a b c
      swa_evaluation_restores_weights [of example_env 2 1 example_state "''swa.pb.gz''"]
    by (simp add: example_state_def)
qed

text \<open>
  The claim as stated fails on the exit by an exception: with four batches left and five
  requested, the test pass raises StopIteration and the live weights are left holding the
  SWA values, with the SWA writer still in place of the test writer; likewise when the
  serialisation raises in save_swa_weights.
\<close>

theorem swa_evaluation_exception_counterexample:
  "fst (calculate_swa_summaries example_env 5 1 example_state) = Some StopIteration
   \<and> map data (weights (snd (calculate_swa_summaries example_env 5 1 example_state)))
       = [[5, 6], [7, 8]]
   \<and> map data (weights example_state) = [[1, 2], [3, 4]]
   \<and> test_writer (snd (calculate_swa_summaries example_env 5 1 example_state)) = ''swa-test''
   \<and> fst (save_swa_weights (example_env\<lparr>save_proto := \<lambda>filename ws. Some (ValueError ''disk'')\<rparr>)
            ''swa.pb.gz'' example_state) = Some (ValueError ''disk'')
   \<and> map data (weights (snd (save_swa_weights
            (example_env\<lparr>save_proto := \<lambda>filename ws. Some (ValueError ''disk'')\<rparr>)
            ''swa.pb.gz'' example_state))) = [[5, 6], [7, 8]]"
  by (simp add: calculate_swa_summaries_def calculate_test_summaries_def save_swa_weights_def
      save_leelaz_weights_def example_state_def example_env_def read_weights_def
      eval_nat_numeral Let_def)

section \<open>Properties of process_loop\<close>

















text \<open>
  C8. The code at a batch size that is not a multiple of the configured virtual batch size:
  process_loop raises, before any step and without changing the state, but what it raises
  is AttributeError, from reading the attribute virtual_batch_sizes while it computes the
  multiple for the message; the ValueError is never reached. A conforming batch size does
  not raise here and enters the loop.
\<close>

theorem process_loop_batch_size_check:
  "(virtual_batch_size cfg = Some v \<and> v \<noteq> 0 \<and> batch_size mod v \<noteq> 0 \<longrightarrow>
      process_loop env cfg batch_size test_batches batch_splits s
        = (Some (AttributeError ''virtual_batch_sizes''), s))
   \<and> (virtual_batch_size cfg = Some v \<and> batch_size mod v = 0 \<longrightarrow>
      process_loop env cfg batch_size test_batches batch_splits s
        = loop env cfg batch_size (if swa_enabled cfg then test_batches div 2 else test_batches)
            batch_splits (global_step s) (total_steps cfg) (s\<lparr>last_steps := global_step s\<rparr>))"
  by (simp add: process_loop_def Let_def)

theorem process_loop_batch_size_check_witness:
  "process_loop example_env example_cfg 100 10 1 example_state
     = (Some (AttributeError ''virtual_batch_sizes''), example_state)
   \<and> process_loop example_env example_cfg 128 10 1 example_state
     = loop example_env example_cfg 128 5 1 0 250 example_state"
proof -
  have s0: "example_state\<lparr>last_steps := 0\<rparr> = example_state"
    by (simp add: example_state_def)
  have v: "virtual_batch_size example_cfg = Some 64" "swa_enabled example_cfg"
    "total_steps example_cfg = 250" "global_step example_state = 0"
    by (simp_all add: example_cfg_def example_state_def)
  from process_loop_batch_size_check [of example_cfg 64 100 example_env 10 1 example_state]
    process_loop_batch_size_check [of example_cfg 64 128 example_env 10 1 example_state]
  show ?thesis by (simp add: v s0)
qed

section \<open>Properties of replace_weights\<close>

lemma lookup_weight_cases:
  "(lookup_weight nt w = Renorm \<longleftrightarrow> is_renorm w)
   \<and> ((\<exists>msg. lookup_weight nt w = Mismatch msg) \<longleftrightarrow> \<not> is_renorm w \<and> weight_mismatch nt w)
   \<and> (lookup_weight nt w = Matched v \<longleftrightarrow>
        \<not> is_renorm w \<and> \<not> weight_mismatch nt w \<and> get_weights_v2 nt (name w) = Some v)"
  by (auto simp: lookup_weight_def is_renorm_def weight_mismatch_def split: option.splits)

text \<open>What the loop leaves in a weight that it does not skip or reject.\<close>

lemma assign_weights_ignore:
  "fst (assign_weights cfg nt True ws) = None
   \<and> fst (snd (assign_weights cfg nt True ws))
       = map (\<lambda>w. if is_renorm w \<or> weight_mismatch nt w then w
                   else w\<lparr>data := convert_weight cfg nt w (the (get_weights_v2 nt (name w)))\<rparr>) ws
   \<and> length (snd (snd (assign_weights cfg nt True ws)))
       = length (filter (\<lambda>w. \<not> is_renorm w \<and> weight_mismatch nt w) ws)"
proof (induction ws)
  case Nil
  show ?case by simp
next
  case (Cons w ws)
  obtain e ws' out where r: "assign_weights cfg nt True ws = (e, ws', out)"
    by (cases "assign_weights cfg nt True ws")
  with Cons have ih: "e = None"
    "ws' = map (\<lambda>w. if is_renorm w \<or> weight_mismatch nt w then w
                   else w\<lparr>data := convert_weight cfg nt w (the (get_weights_v2 nt (name w)))\<rparr>) ws"
    "length out = length (filter (\<lambda>w. \<not> is_renorm w \<and> weight_mismatch nt w) ws)"
    by simp_all
  show ?case
  proof (cases "lookup_weight nt w")
    case Renorm
    then have "is_renorm w" using lookup_weight_cases [of nt w] by simp
    then show ?thesis using Renorm r ih by simp
  next
    case (Mismatch msg)
    then have "\<not> is_renorm w \<and> weight_mismatch nt w"
      using lookup_weight_cases [of nt w] by auto
    then show ?thesis using Mismatch r ih by simp
  next
    case (Matched v)
    then have "\<not> is_renorm w \<and> \<not> weight_mismatch nt w \<and> get_weights_v2 nt (name w) = Some v"
      using lookup_weight_cases [of nt w v] by simp
    then show ?thesis using Matched r ih by simp
  qed
qed

lemma assign_weights_strict:
  "(fst (assign_weights cfg nt False ws) = None
      \<longleftrightarrow> \<not> (\<exists>w \<in> set ws. \<not> is_renorm w \<and> weight_mismatch nt w))
   \<and> (fst (assign_weights cfg nt False ws) \<noteq> None
        \<longrightarrow> (\<exists>msg. fst (assign_weights cfg nt False ws) = Some (KeyError msg)))"
proof (induction ws)
  case Nil
  show ?case by simp
next
  case (Cons w ws)
  obtain e ws' out where r: "assign_weights cfg nt False ws = (e, ws', out)"
    by (cases "assign_weights cfg nt False ws")
  with Cons have ih:
    "e = None \<longleftrightarrow> \<not> (\<exists>w \<in> set ws. \<not> is_renorm w \<and> weight_mismatch nt w)"
    "e \<noteq> None \<longrightarrow> (\<exists>msg. e = Some (KeyError msg))"
    by auto
  show ?case
  proof (cases "lookup_weight nt w")
    case Renorm
    then have "is_renorm w" using lookup_weight_cases [of nt w] by simp
    then show ?thesis using Renorm r ih by simp
  next
    case (Mismatch msg)
    then have "\<not> is_renorm w \<and> weight_mismatch nt w"
      using lookup_weight_cases [of nt w] by auto
    then show ?thesis using Mismatch r by auto
  next
    case (Matched v)
    then have "\<not> is_renorm w \<and> \<not> weight_mismatch nt w"
      using lookup_weight_cases [of nt w v] by simp
    then show ?thesis using Matched r ih by simp
  qed
qed

text \<open>
  The outcome of \<^verbatim>\<open>replace_weights\<close> in both modes, with the tensors named
  \<^verbatim>\<open>renorm\<close> that the loop passes over.
\<close>

lemma replace_weights_cases:
  assumes swa: "swa_enabled cfg \<longrightarrow> swa_weights s \<noteq> None"
  shows "fst (replace_weights cfg nt True s) = None
       \<and> weights (snd (replace_weights cfg nt True s))
           = map (\<lambda>w. if is_renorm w \<or> weight_mismatch nt w then w
                       else w\<lparr>data := convert_weight cfg nt w (the (get_weights_v2 nt (name w)))\<rparr>)
               (weights s)
       \<and> length (printed (snd (replace_weights cfg nt True s)))
           = length (printed s)
             + length (filter (\<lambda>w. \<not> is_renorm w \<and> weight_mismatch nt w) (weights s))
       \<and> (POLICY_HEAD cfg = net_policy nt \<and> VALUE_HEAD cfg = net_value nt \<longrightarrow>
            ((\<exists>msg. fst (replace_weights cfg nt False s) = Some (KeyError msg))
               \<longleftrightarrow> (\<exists>w \<in> set (weights s). \<not> is_renorm w \<and> weight_mismatch nt w))
            \<and> (fst (replace_weights cfg nt False s) = None
               \<longleftrightarrow> \<not> (\<exists>w \<in> set (weights s). \<not> is_renorm w \<and> weight_mismatch nt w)))"
proof -
  obtain e ws out where r: "assign_weights cfg nt True (weights s) = (e, ws, out)"
    by (cases "assign_weights cfg nt True (weights s)")
  from assign_weights_ignore [of cfg nt "weights s"] r
  have ign: "e = None"
    "ws = map (\<lambda>w. if is_renorm w \<or> weight_mismatch nt w then w
                   else w\<lparr>data := convert_weight cfg nt w (the (get_weights_v2 nt (name w)))\<rparr>)
            (weights s)"
    "length out = length (filter (\<lambda>w. \<not> is_renorm w \<and> weight_mismatch nt w) (weights s))"
    by simp_all
  have lenient: "fst (replace_weights cfg nt True s) = None
       \<and> weights (snd (replace_weights cfg nt True s)) = ws
       \<and> length (printed (snd (replace_weights cfg nt True s))) = length (printed s) + length out"
  proof (cases "swa_enabled cfg")
    case False
    then show ?thesis by (simp add: replace_weights_def r ign(1))
  next
    case True
    with swa obtain swas where "swa_weights s = Some swas" by auto
    then show ?thesis
      using True by (simp add: replace_weights_def r ign(1) update_swa_def Let_def)
  qed
  obtain e' ws' out' where r': "assign_weights cfg nt False (weights s) = (e', ws', out')"
    by (cases "assign_weights cfg nt False (weights s)")
  from assign_weights_strict [of cfg nt "weights s"] r'
  have str: "e' = None \<longleftrightarrow> \<not> (\<exists>w \<in> set (weights s). \<not> is_renorm w \<and> weight_mismatch nt w)"
    "e' \<noteq> None \<longrightarrow> (\<exists>msg. e' = Some (KeyError msg))"
    by auto
  have strict: "fst (replace_weights cfg nt False s) = e'"
    if "POLICY_HEAD cfg = net_policy nt" "VALUE_HEAD cfg = net_value nt"
  proof (cases e')
    case (Some err)
    then show ?thesis using that by (simp add: replace_weights_def r')
  next
    case None
    show ?thesis
    proof (cases "swa_enabled cfg")
      case False
      then show ?thesis using that None by (simp add: replace_weights_def r')
    next
      case True
      with swa obtain swas where "swa_weights s = Some swas" by auto
      then show ?thesis
        using that None True by (simp add: replace_weights_def r' update_swa_def Let_def)
    qed
  qed
  show ?thesis
    using lenient ign(2,3) strict str by auto
qed

text \<open>
  C7. A mismatch is a model tensor with no value in the loaded file, or with a loaded value
  whose number of elements is not the product of the tensor's shape. On the weights of the
  model (construct_net names its layers, and none of the names contains "renorm"; with SWA
  the shadow weights exist), when there is a mismatch replace_weights raises if and only if
  ignore_errors is False, and with matching head formats what it raises is a KeyError,
  raised exactly when there is a mismatch. With ignore_errors True it does not raise: every
  mismatched tensor keeps the value it had, every other tensor is assigned its converted
  value, and one message is printed for every mismatch.
\<close>

theorem replace_weights_mismatch:
  assumes swa: "swa_enabled cfg \<longrightarrow> swa_weights s \<noteq> None"
    and names: "\<forall>w \<in> set (weights s). \<not> is_renorm w"
  shows "((\<exists>w \<in> set (weights s). weight_mismatch nt w) \<longrightarrow>
            (fst (replace_weights cfg nt ignore_errors s) \<noteq> None \<longleftrightarrow> \<not> ignore_errors))
       \<and> (POLICY_HEAD cfg = net_policy nt \<and> VALUE_HEAD cfg = net_value nt \<longrightarrow>
            ((\<exists>msg. fst (replace_weights cfg nt False s) = Some (KeyError msg))
               \<longleftrightarrow> (\<exists>w \<in> set (weights s). weight_mismatch nt w))
            \<and> (fst (replace_weights cfg nt False s) = None
               \<longleftrightarrow> \<not> (\<exists>w \<in> set (weights s). weight_mismatch nt w)))
       \<and> fst (replace_weights cfg nt True s) = None
       \<and> weights (snd (replace_weights cfg nt True s))
           = map (\<lambda>w. if weight_mismatch nt w then w
                       else w\<lparr>data := convert_weight cfg nt w (the (get_weights_v2 nt (name w)))\<rparr>)
               (weights s)
       \<and> length (printed (snd (replace_weights cfg nt True s)))
           = length (printed s) + length (filter (weight_mismatch nt) (weights s))"
proof -
  note g = replace_weights_cases [OF swa, of nt]
  have ex: "(\<exists>w \<in> set (weights s). \<not> is_renorm w \<and> weight_mismatch nt w)
            \<longleftrightarrow> (\<exists>w \<in> set (weights s). weight_mismatch nt w)"
    using names by auto
  have m: "map (\<lambda>w. if is_renorm w \<or> weight_mismatch nt w then w
                    else w\<lparr>data := convert_weight cfg nt w (the (get_weights_v2 nt (name w)))\<rparr>)
             (weights s)
           = map (\<lambda>w. if weight_mismatch nt w then w
                       else w\<lparr>data := convert_weight cfg nt w (the (get_weights_v2 nt (name w)))\<rparr>)
               (weights s)"
    using names by (intro map_cong) auto
  have f: "filter (\<lambda>w. \<not> is_renorm w \<and> weight_mismatch nt w) (weights s)
           = filter (weight_mismatch nt) (weights s)"
    using names by (intro filter_cong) auto
  have lenient: "fst (replace_weights cfg nt True s) = None"
    "weights (snd (replace_weights cfg nt True s))
       = map (\<lambda>w. if weight_mismatch nt w then w
                   else w\<lparr>data := convert_weight cfg nt w (the (get_weights_v2 nt (name w)))\<rparr>)
           (weights s)"
    "length (printed (snd (replace_weights cfg nt True s)))
       = length (printed s) + length (filter (weight_mismatch nt) (weights s))"
    using g by (simp_all add: m f)
  have strict: "((\<exists>msg. fst (replace_weights cfg nt False s) = Some (KeyError msg))
               \<longleftrightarrow> (\<exists>w \<in> set (weights s). weight_mismatch nt w))
            \<and> (fst (replace_weights cfg nt False s) = None
               \<longleftrightarrow> \<not> (\<exists>w \<in> set (weights s). weight_mismatch nt w))"
    if "POLICY_HEAD cfg = net_policy nt \<and> VALUE_HEAD cfg = net_value nt"
    using g that unfolding ex by blast
  have raises: "fst (replace_weights cfg nt False s) \<noteq> None"
    if mm: "\<exists>w \<in> set (weights s). weight_mismatch nt w"
  proof (cases "POLICY_HEAD cfg = net_policy nt \<and> VALUE_HEAD cfg = net_value nt")
    case True
    from strict [OF True] mm show ?thesis by simp
  next
    case False
    then show ?thesis by (auto simp add: replace_weights_def)
  qed
  have iff: "fst (replace_weights cfg nt ignore_errors s) \<noteq> None \<longleftrightarrow> \<not> ignore_errors"
    if mm: "\<exists>w \<in> set (weights s). weight_mismatch nt w"
    using raises [OF mm] lenient(1) by (cases ignore_errors) simp_all
  from iff strict lenient show ?thesis by blast
qed

theorem replace_weights_mismatch_witness:
  "weight_mismatch example_net (weights example_state ! 1)
   \<and> fst (replace_weights example_cfg example_net True example_state) = None
   \<and> map data (weights (snd (replace_weights example_cfg example_net True example_state)))
       = [[10, 20], [3, 4]]
   \<and> printed (snd (replace_weights example_cfg example_net True example_state))
       = [''Tensor embedding/bias:0 has wrong length. Tensorflow shape [2], size in protobuf 1'']
   \<and> fst (replace_weights example_cfg example_net False example_state)
       = Some (KeyError
           ''Tensor embedding/bias:0 has wrong length. Tensorflow shape [2], size in protobuf 1'')"
proof -
  have swa: "swa_enabled example_cfg \<longrightarrow> swa_weights example_state \<noteq> None"
    by (simp add: example_state_def)
  have names: "\<forall>w \<in> set (weights example_state). \<not> is_renorm w"
    by (simp add: example_state_def is_renorm_def)
  have heads: "POLICY_HEAD example_cfg = net_policy example_net
               \<and> VALUE_HEAD example_cfg = net_value example_net"
    by (simp add: example_cfg_def example_net_def)
  have mm: "weight_mismatch example_net (weights example_state ! 1)"
    by (simp add: example_state_def example_net_def weight_mismatch_def)
  then have ex: "\<exists>w \<in> set (weights example_state). weight_mismatch example_net w"
    by (auto simp add: example_state_def)
  have ev: "printed (snd (replace_weights example_cfg example_net True example_state))
       = [''Tensor embedding/bias:0 has wrong length. Tensorflow shape [2], size in protobuf 1'']
     \<and> fst (replace_weights example_cfg example_net False example_state)
       = Some (KeyError
           ''Tensor embedding/bias:0 has wrong length. Tensorflow shape [2], size in protobuf 1'')"
    by (simp add: replace_weights_def example_cfg_def example_net_def example_state_def
        lookup_weight_def convert_weight_def transpose_dense_def update_swa_def str_shape_def
        str_nat.simps Let_def)
  have w: "map (\<lambda>w. if weight_mismatch example_net w then w
                    else w\<lparr>data := convert_weight example_cfg example_net w
                                     (the (get_weights_v2 example_net (name w)))\<rparr>)
             (weights example_state)
           = [\<lparr>name = ''embedding/kernel:0'', shape = [1, 2], data = [10, 20]\<rparr>,
              \<lparr>name = ''embedding/bias:0'', shape = [2], data = [3, 4]\<rparr>]"
    by (simp add: example_state_def example_net_def weight_mismatch_def
        convert_weight_def transpose_dense_def eval_nat_numeral)
  from replace_weights_mismatch [OF swa names, of example_net True] ex heads mm ev
  show ?thesis by (simp add: w)
qed

end
